theory Spec2Isabelle
  imports Complex_Main "HOL-Library.Multiset"
begin

section \<open>The inventory ledger of allocate_medical_product.py\<close>

text \<open>
  The class \<open>Database\<close> wraps one pyodbc connection to a SQL Server store, opened with
  \<open>autocommit=False\<close>. Its methods run parameterised SQL statements and then call
  \<open>commit\<close>; only \<open>allocate\<close> runs two mutating statements in one transaction and calls
  \<open>rollback\<close> in its exception handler. The embedding keeps that shape: a connection holds
  the committed tables and the tables as the open transaction sees them, every statement
  acts on the latter, and \<open>commit\<close> and \<open>rollback\<close> copy one to the other.
\<close>

subsection \<open>Tables (the CREATE TABLE statements of ensure_schema)\<close>

text \<open>
  A DATETIME value is carried as its position on the time line; a FLOAT value as the
  rational number it denotes. The ledger only stores, copies and compares them.
\<close>

type_synonym timestamp = int

record hospital =
  h_id :: int
  h_name :: string

record item =
  i_id :: int
  i_item_type :: string
  i_name :: string
  i_diameter :: "rat option"
  i_length :: "int option"
  i_price :: "rat option"
  i_qty :: int

record allocation =
  a_id :: int
  a_hospital_id :: int
  a_item_id :: int
  a_qty :: int
  a_price_at_alloc :: "rat option"
  a_ts :: timestamp

record db =
  hospitals :: "hospital list"
  items :: "item list"
  allocations :: "allocation list"

text \<open>
  The connection. The IDENTITY counter of the allocations table belongs to the store and is
  not part of any transaction: a rolled back or rejected INSERT still uses up a value.
\<close>

record conn =
  committed :: db
  working :: db
  ident_items :: int
  ident_allocations :: int

definition commit :: "conn \<Rightarrow> conn" where
  "commit c = c\<lparr>committed := working c\<rparr>"

definition rollback :: "conn \<Rightarrow> conn" where
  "rollback c = c\<lparr>working := committed c\<rparr>"

subsection \<open>Errors and Python numbers\<close>

text \<open>
  \<open>allocate\<close> raises \<open>ValueError("Item not found")\<close>, \<open>ValueError("Quantity must be > 0")\<close>
  and \<open>ValueError(f"Not enough stock (available={avail})")\<close>; they are the specification's
  NotFoundError, InvalidQuantityError and InsufficientStockError. \<open>IntegrityError\<close> is what
  pyodbc raises when the store rejects a statement for a FOREIGN KEY constraint, and
  \<open>DataError\<close> when a parameter does not fit its column.
\<close>

datatype error =
    NotFoundError
  | InvalidQuantityError
  | InsufficientStockError int
  | IntegrityError
  | DataError

text \<open>
  The quantity handed to \<open>allocate\<close> is whatever Python number the caller passes: an
  \<open>int\<close>, or a finite \<open>float\<close> (given by its exact value).
\<close>

datatype pynum = PyInt int | PyFloat rat


text \<open>\<open>qty <= 0\<close> and \<open>qty > avail\<close>; Python compares an int with a float exactly.\<close>

fun num_le_zero :: "pynum \<Rightarrow> bool" where
  "num_le_zero (PyInt k) = (k \<le> 0)"
| "num_le_zero (PyFloat r) = (r \<le> 0)"

fun num_gt_int :: "pynum \<Rightarrow> int \<Rightarrow> bool" where
  "num_gt_int (PyInt k) a = (a < k)"
| "num_gt_int (PyFloat r) a = (of_int a < r)"

text \<open>
  An INT column holds a signed 32-bit value. SQL Server converts a FLOAT to INT by
  truncation towards zero; \<open>qty - ?\<close> with a FLOAT parameter is computed as a FLOAT and
  converted when it is assigned to the INT column.
\<close>

definition in_int_range :: "int \<Rightarrow> bool" where
  "in_int_range k = (- 2147483648 \<le> k \<and> k \<le> 2147483647)"

definition sql_trunc :: "rat \<Rightarrow> int" where
  "sql_trunc r = (if 0 \<le> r then \<lfloor>r\<rfloor> else \<lceil>r\<rceil>)"

fun sql_int_of_num :: "pynum \<Rightarrow> int" where
  "sql_int_of_num (PyInt k) = k"
| "sql_int_of_num (PyFloat r) = sql_trunc r"

fun sql_int_minus :: "int \<Rightarrow> pynum \<Rightarrow> int" where
  "sql_int_minus a (PyInt k) = a - k"
| "sql_int_minus a (PyFloat r) = sql_trunc (of_int a - r)"

subsection \<open>The statements of allocate\<close>

text \<open>\<open>SELECT qty, price FROM items WHERE id=?\<close> followed by \<open>fetchone()\<close>.\<close>

definition exec_select_item :: "db \<Rightarrow> int \<Rightarrow> item option" where
  "exec_select_item d item_id = find (\<lambda>r. i_id r = item_id) (items d)"

text \<open>
  \<open>UPDATE items SET qty = qty - ? WHERE id=?\<close>. It runs only after \<open>0 < qty \<le> avail\<close> was
  checked against the value read from the column, so the difference fits the column.
\<close>

definition exec_update_qty :: "db \<Rightarrow> int \<Rightarrow> pynum \<Rightarrow> db" where
  "exec_update_qty d item_id qty =
     d\<lparr>items := map (\<lambda>r. if i_id r = item_id then r\<lparr>i_qty := sql_int_minus (i_qty r) qty\<rparr> else r)
                    (items d)\<rparr>"

text \<open>
  \<open>INSERT INTO allocations (hospital_id, item_id, qty, price_at_alloc, ts) VALUES (...)\<close>.
  The table declares \<open>hospital_id INT NOT NULL FOREIGN KEY REFERENCES hospitals(id)\<close> and
  \<open>item_id INT NOT NULL FOREIGN KEY REFERENCES items(id)\<close>: the store rejects the row
  unless both referenced rows exist.
\<close>

definition exec_insert_allocation ::
  "conn \<Rightarrow> int \<Rightarrow> int \<Rightarrow> pynum \<Rightarrow> rat option \<Rightarrow> timestamp \<Rightarrow> (error + unit) \<times> conn" where
  "exec_insert_allocation c hospital_id item_id qty price_at_alloc now =
     (let c1 = c\<lparr>ident_allocations := ident_allocations c + 1\<rparr>
      in if hospital_id \<in> set (map h_id (hospitals (working c)))
            \<and> item_id \<in> set (map i_id (items (working c)))
         then (Inr (),
               c1\<lparr>working := (working c)\<lparr>allocations := allocations (working c) @
                    [\<lparr>a_id = ident_allocations c, a_hospital_id = hospital_id,
                      a_item_id = item_id, a_qty = sql_int_of_num qty,
                      a_price_at_alloc = price_at_alloc, a_ts = now\<rparr>]\<rparr>\<rparr>)
         else (Inl IntegrityError, c1))"

subsection \<open>Database.allocate\<close>

text \<open>
  The body of the \<open>try\<close> block. It returns the outcome together with the connection as it
  is when the block is left: at a \<open>raise\<close>, or after \<open>self.conn.commit()\<close>. \<open>now\<close> is the
  value of \<open>datetime.now()\<close>.
\<close>

definition allocate_try ::
  "conn \<Rightarrow> int \<Rightarrow> int \<Rightarrow> pynum \<Rightarrow> rat option \<Rightarrow> timestamp \<Rightarrow> (error + unit) \<times> conn" where
  "allocate_try c item_id hospital_id qty price_at_alloc now =
     (case exec_select_item (working c) item_id of
        None \<Rightarrow> (Inl NotFoundError, c)
      | Some row \<Rightarrow>
          (let avail = i_qty row;
               current_price = i_price row;
               price_rec = (case price_at_alloc of None \<Rightarrow> current_price | Some p \<Rightarrow> Some p)
           in if num_le_zero qty then (Inl InvalidQuantityError, c)
              else if num_gt_int qty avail then (Inl (InsufficientStockError avail), c)
              else
                (let c1 = c\<lparr>working := exec_update_qty (working c) item_id qty\<rparr>
                 in case exec_insert_allocation c1 hospital_id item_id qty price_rec now of
                      (Inl e, c2) \<Rightarrow> (Inl e, c2)
                    | (Inr u, c2) \<Rightarrow> (Inr (), commit c2))))"

text \<open>The \<open>except Exception\<close> handler: roll back, then re-raise.\<close>

definition allocate ::
  "conn \<Rightarrow> int \<Rightarrow> int \<Rightarrow> pynum \<Rightarrow> rat option \<Rightarrow> timestamp \<Rightarrow> (error + unit) \<times> conn" where
  "allocate c item_id hospital_id qty price_at_alloc now =
     (case allocate_try c item_id hospital_id qty price_at_alloc now of
        (Inl e, c') \<Rightarrow> (Inl e, rollback c')
      | (Inr u, c') \<Rightarrow> (Inr u, c'))"

subsection \<open>Item operations: add_item, update_item, set_stock\<close>

text \<open>
  Each of these methods runs one statement and commits. A statement the store rejects has
  no effect, and the exception leaves the method before \<open>commit\<close>. The store rejects a
  parameter that does not fit its column: an integer outside the INT range, a string longer
  than the NVARCHAR size.
\<close>

definition fits_int_opt :: "int option \<Rightarrow> bool" where
  "fits_int_opt x = (case x of None \<Rightarrow> True | Some n \<Rightarrow> in_int_range n)"

text \<open>
  \<open>INSERT INTO items (item_type, name, diameter, length, price, qty) VALUES (...)\<close> with
  \<open>qty or 0\<close> as the last parameter.
\<close>

definition add_item ::
  "conn \<Rightarrow> string \<Rightarrow> string \<Rightarrow> rat option \<Rightarrow> int option \<Rightarrow> rat option \<Rightarrow> int option
     \<Rightarrow> (error + unit) \<times> conn" where
  "add_item c item_type name diameter len price qty =
     (let q = (case qty of None \<Rightarrow> 0 | Some n \<Rightarrow> if n = 0 then 0 else n)
      in if size item_type \<le> 50 \<and> size name \<le> 200 \<and> fits_int_opt len \<and> in_int_range q
         then (Inr (),
               commit (c\<lparr>working := (working c)\<lparr>items := items (working c) @
                          [\<lparr>i_id = ident_items c, i_item_type = item_type, i_name = name,
                            i_diameter = diameter, i_length = len, i_price = price,
                            i_qty = q\<rparr>]\<rparr>,
                        ident_items := ident_items c + 1\<rparr>))
         else (Inl DataError, c))"

text \<open>\<open>UPDATE items SET name=?, diameter=?, length=?, price=? WHERE id=?\<close>.\<close>

definition update_item ::
  "conn \<Rightarrow> int \<Rightarrow> string \<Rightarrow> rat option \<Rightarrow> int option \<Rightarrow> rat option \<Rightarrow> (error + unit) \<times> conn" where
  "update_item c item_id name diameter len price =
     (if size name \<le> 200 \<and> fits_int_opt len
      then (Inr (),
            commit (c\<lparr>working := (working c)\<lparr>items :=
                       map (\<lambda>r. if i_id r = item_id
                                 then r\<lparr>i_name := name, i_diameter := diameter,
                                        i_length := len, i_price := price\<rparr>
                                 else r)
                           (items (working c))\<rparr>\<rparr>))
      else (Inl DataError, c))"

text \<open>\<open>UPDATE items SET qty=? WHERE id=?\<close>. The column has no CHECK constraint.\<close>

definition set_stock :: "conn \<Rightarrow> int \<Rightarrow> int \<Rightarrow> (error + unit) \<times> conn" where
  "set_stock c item_id qty =
     (if in_int_range qty
      then (Inr (),
            commit (c\<lparr>working := (working c)\<lparr>items :=
                       map (\<lambda>r. if i_id r = item_id then r\<lparr>i_qty := qty\<rparr> else r)
                           (items (working c))\<rparr>\<rparr>))
      else (Inl DataError, c))"

subsection \<open>delete_hospital and delete_item\<close>

text \<open>
  \<open>DELETE FROM hospitals WHERE id=?\<close> and \<open>DELETE FROM items WHERE id=?\<close>. The FOREIGN KEY
  constraints of the allocations table are declared without an ON DELETE action, so the
  store rejects the deletion of a row that an allocation references; the statement then
  has no effect and the method raises before \<open>commit\<close>.
\<close>

definition delete_hospital :: "conn \<Rightarrow> int \<Rightarrow> (error + unit) \<times> conn" where
  "delete_hospital c hid =
     (if hid \<in> set (map h_id (hospitals (working c)))
         \<and> hid \<in> set (map a_hospital_id (allocations (working c)))
      then (Inl IntegrityError, c)
      else (Inr (),
            commit (c\<lparr>working := (working c)\<lparr>hospitals :=
                       filter (\<lambda>h. h_id h \<noteq> hid) (hospitals (working c))\<rparr>\<rparr>)))"

definition delete_item :: "conn \<Rightarrow> int \<Rightarrow> (error + unit) \<times> conn" where
  "delete_item c item_id =
     (if item_id \<in> set (map i_id (items (working c)))
         \<and> item_id \<in> set (map a_item_id (allocations (working c)))
      then (Inl IntegrityError, c)
      else (Inr (),
            commit (c\<lparr>working := (working c)\<lparr>items :=
                       filter (\<lambda>r. i_id r \<noteq> item_id) (items (working c))\<rparr>\<rparr>)))"

subsection \<open>fetch_allocations_for_report\<close>

text \<open>
  One row of the result:
  \<open>a.id, h.name, i.item_type, i.name, i.diameter, i.length, a.qty, a.price_at_alloc, a.ts\<close>.
\<close>

record report_row =
  r_id :: int
  r_hospital :: string
  r_item_type :: string
  r_item :: string
  r_diameter :: "rat option"
  r_length :: "int option"
  r_qty :: int
  r_price :: "rat option"
  r_ts :: timestamp

definition mk_row :: "allocation \<Rightarrow> hospital \<Rightarrow> item \<Rightarrow> report_row" where
  "mk_row a h i =
     \<lparr>r_id = a_id a, r_hospital = h_name h, r_item_type = i_item_type i, r_item = i_name i,
      r_diameter = i_diameter i, r_length = i_length i, r_qty = a_qty a,
      r_price = a_price_at_alloc a, r_ts = a_ts a\<rparr>"

text \<open>
  \<open>FROM allocations a JOIN hospitals h ON a.hospital_id=h.id JOIN items i ON a.item_id=i.id\<close>.
\<close>

definition joined :: "db \<Rightarrow> (allocation \<times> hospital \<times> item) list" where
  "joined d =
     [(a, h, i). a \<leftarrow> allocations d,
                 h \<leftarrow> hospitals d, h_id h = a_hospital_id a,
                 i \<leftarrow> items d, i_id i = a_item_id a]"

text \<open>
  The WHERE clauses. \<open>if hospital_id:\<close> adds \<open>h.id = ?\<close> when the argument is truthy, that
  is neither \<open>None\<close> nor 0; \<open>if date_from:\<close> and \<open>if date_to:\<close> add \<open>a.ts >= ?\<close> and
  \<open>a.ts <= ?\<close> when a datetime is given (a datetime object is always truthy).
\<close>

definition report_where ::
  "int option \<Rightarrow> timestamp option \<Rightarrow> timestamp option \<Rightarrow> allocation \<times> hospital \<times> item \<Rightarrow> bool" where
  "report_where hospital_id date_from date_to t =
     (case t of (a, h, i) \<Rightarrow>
        (case hospital_id of None \<Rightarrow> True | Some x \<Rightarrow> if x = 0 then True else h_id h = x)
      \<and> (case date_from of None \<Rightarrow> True | Some f \<Rightarrow> f \<le> a_ts a)
      \<and> (case date_to of None \<Rightarrow> True | Some u \<Rightarrow> a_ts a \<le> u))"

text \<open>
  \<open>ORDER BY a.ts ASC\<close>, then \<open>fetchall()\<close>. SQL leaves the order of rows with equal
  timestamps open; the model keeps them in join order.
\<close>

definition fetch_allocations_for_report ::
  "conn \<Rightarrow> int option \<Rightarrow> timestamp option \<Rightarrow> timestamp option \<Rightarrow> report_row list" where
  "fetch_allocations_for_report c hospital_id date_from date_to =
     sort_key r_ts
       (map (\<lambda>(a, h, i). mk_row a h i)
            (filter (report_where hospital_id date_from date_to) (joined (working c))))"

text \<open>
  The reporting query as the specification words it: the allocation records that match
  every supplied filter (the hospital, the inclusive bounds of the date range), joined
  with hospital and item identity, in ascending order of timestamp.
\<close>

definition matches_filters ::
  "int option \<Rightarrow> timestamp option \<Rightarrow> timestamp option \<Rightarrow> allocation \<Rightarrow> bool" where
  "matches_filters hospital_id date_from date_to a =
     ((case hospital_id of None \<Rightarrow> True | Some x \<Rightarrow> a_hospital_id a = x)
      \<and> (case date_from of None \<Rightarrow> True | Some f \<Rightarrow> f \<le> a_ts a)
      \<and> (case date_to of None \<Rightarrow> True | Some u \<Rightarrow> a_ts a \<le> u))"

definition report_spec ::
  "db \<Rightarrow> int option \<Rightarrow> timestamp option \<Rightarrow> timestamp option \<Rightarrow> report_row list" where
  "report_spec d hospital_id date_from date_to =
     sort_key r_ts
       [mk_row a h i. a \<leftarrow> filter (matches_filters hospital_id date_from date_to) (allocations d),
                      h \<leftarrow> hospitals d, h_id h = a_hospital_id a,
                      i \<leftarrow> items d, i_id i = a_item_id a]"

text \<open>
  The key constraints of the schema: \<open>id\<close> is the PRIMARY KEY of hospitals and of items,
  and every allocation references an existing hospital and an existing item.
\<close>

definition keys_ok :: "db \<Rightarrow> bool" where
  "keys_ok d =
     (distinct (map h_id (hospitals d)) \<and> distinct (map i_id (items d))
      \<and> set (map a_hospital_id (allocations d)) \<subseteq> set (map h_id (hospitals d))
      \<and> set (map a_item_id (allocations d)) \<subseteq> set (map i_id (items d)))"

subsection \<open>A sequence of allocate calls against one item\<close>


subsection \<open>A concrete ledger\<close>

text \<open>The state of the specification's example: "Stent A", quantity 10, price 100.0.\<close>

definition hospital_x :: hospital where
  "hospital_x = \<lparr>h_id = 1, h_name = ''Hospital X''\<rparr>"

definition stent_a :: item where
  "stent_a = \<lparr>i_id = 1, i_item_type = ''Stent'', i_name = ''Stent A'', i_diameter = None,
               i_length = None, i_price = Some 100, i_qty = 10\<rparr>"

definition db0 :: db where
  "db0 = \<lparr>hospitals = [hospital_x], items = [stent_a], allocations = []\<rparr>"

definition conn0 :: conn where
  "conn0 = \<lparr>committed = db0, working = db0, ident_items = 2, ident_allocations = 1\<rparr>"

text \<open>The same ledger after 4 units went to "Hospital X" at time 1000.\<close>

definition conn1 :: conn where
  "conn1 =
     (let d = \<lparr>hospitals = [hospital_x], items = [stent_a\<lparr>i_qty := 6\<rparr>],
               allocations = [\<lparr>a_id = 1, a_hospital_id = 1, a_item_id = 1, a_qty = 4,
                                a_price_at_alloc = Some 100, a_ts = 1000\<rparr>]\<rparr>
      in \<lparr>committed = d, working = d, ident_items = 2, ident_allocations = 2\<rparr>)"

section \<open>Properties\<close>

subsection \<open>Helper facts about the statements\<close>

lemma find_map_update_qty:
  "find (\<lambda>r. i_id r = k) xs = Some row \<Longrightarrow>
   find (\<lambda>r. i_id r = k) (map (\<lambda>r. if i_id r = k then r\<lparr>i_qty := f (i_qty r)\<rparr> else r) xs)
     = Some (row\<lparr>i_qty := f (i_qty row)\<rparr>)"
  by (induction xs) (auto split: if_splits)

lemma select_after_update:
  "exec_select_item d item_id = Some row \<Longrightarrow>
   exec_select_item (exec_update_qty d item_id qty) item_id
     = Some (row\<lparr>i_qty := sql_int_minus (i_qty row) qty\<rparr>)"
  unfolding exec_select_item_def exec_update_qty_def
  using find_map_update_qty [of item_id "items d" row "\<lambda>a. sql_int_minus a qty"] by simp

lemma rollback_clean: "working c = committed c \<Longrightarrow> rollback c = c"
  by (simp add: rollback_def)

lemma item_ids_after_update:
  "map i_id (items (exec_update_qty d item_id qty)) = map i_id (items d)"
  by (simp add: exec_update_qty_def)

lemma item_id_set_after_update:
  "i_id ` set (items (exec_update_qty d item_id qty)) = i_id ` set (items d)"
  using item_ids_after_update [of d item_id qty] by (metis set_map)

lemma hospitals_after_update:
  "hospitals (exec_update_qty d item_id qty) = hospitals d"
  by (simp add: exec_update_qty_def)

lemma allocations_after_update:
  "allocations (exec_update_qty d item_id qty) = allocations d"
  by (simp add: exec_update_qty_def)

lemma select_Some_id:
  "exec_select_item d item_id = Some row \<Longrightarrow> i_id row = item_id \<and> row \<in> set (items d)"
  unfolding exec_select_item_def by (auto simp: find_Some_iff)

lemma select_Some_in_ids:
  "exec_select_item d item_id = Some row \<Longrightarrow> item_id \<in> set (map i_id (items d))"
  using select_Some_id [of d item_id row] by force

text \<open>The four ways \<open>allocate\<close> can end once the item row was found.\<close>

lemma allocate_accept:
  assumes "exec_select_item (working c) item_id = Some row"
    and "\<not> num_le_zero qty" and "\<not> num_gt_int qty (i_qty row)"
    and "hospital_id \<in> set (map h_id (hospitals (working c)))"
  shows "allocate c item_id hospital_id qty price now =
    (Inr (),
     c\<lparr>committed := (exec_update_qty (working c) item_id qty)
          \<lparr>allocations := allocations (working c) @
             [\<lparr>a_id = ident_allocations c, a_hospital_id = hospital_id, a_item_id = item_id,
               a_qty = sql_int_of_num qty,
               a_price_at_alloc = (case price of None \<Rightarrow> i_price row | Some x \<Rightarrow> Some x),
               a_ts = now\<rparr>]\<rparr>,
       working := (exec_update_qty (working c) item_id qty)
          \<lparr>allocations := allocations (working c) @
             [\<lparr>a_id = ident_allocations c, a_hospital_id = hospital_id, a_item_id = item_id,
               a_qty = sql_int_of_num qty,
               a_price_at_alloc = (case price of None \<Rightarrow> i_price row | Some x \<Rightarrow> Some x),
               a_ts = now\<rparr>]\<rparr>,
       ident_allocations := ident_allocations c + 1\<rparr>)"
  using assms select_Some_in_ids [OF assms(1)]
  by (simp add: allocate_def allocate_try_def exec_insert_allocation_def commit_def Let_def
        item_id_set_after_update hospitals_after_update allocations_after_update)

lemma allocate_reject_hospital:
  assumes "exec_select_item (working c) item_id = Some row"
    and "\<not> num_le_zero qty" and "\<not> num_gt_int qty (i_qty row)"
    and "hospital_id \<notin> set (map h_id (hospitals (working c)))"
  shows "allocate c item_id hospital_id qty price now =
    (Inl IntegrityError, c\<lparr>working := committed c, ident_allocations := ident_allocations c + 1\<rparr>)"
  using assms
  by (simp add: allocate_def allocate_try_def exec_insert_allocation_def rollback_def Let_def
        hospitals_after_update)

lemma allocate_reject_quantity:
  assumes "exec_select_item (working c) item_id = Some row" and "num_le_zero qty"
  shows "allocate c item_id hospital_id qty price now = (Inl InvalidQuantityError, rollback c)"
  using assms by (simp add: allocate_def allocate_try_def Let_def)

lemma allocate_reject_stock:
  assumes "exec_select_item (working c) item_id = Some row"
    and "\<not> num_le_zero qty" and "num_gt_int qty (i_qty row)"
  shows "allocate c item_id hospital_id qty price now =
           (Inl (InsufficientStockError (i_qty row)), rollback c)"
  using assms by (simp add: allocate_def allocate_try_def Let_def)

lemma allocate_reject_item:
  assumes "exec_select_item (working c) item_id = None"
  shows "allocate c item_id hospital_id qty price now = (Inl NotFoundError, rollback c)"
  using assms by (simp add: allocate_def allocate_try_def)

lemma allocate_failure_tables:
  assumes "allocate c item_id hospital_id qty price now = (Inl e, c')"
  shows "working c' = committed c \<and> committed c' = committed c"
proof (cases "exec_select_item (working c) item_id")
  case None
  then show ?thesis using assms allocate_reject_item [OF None] by (auto simp: rollback_def)
next
  case (Some row)
  consider "num_le_zero qty" | "\<not> num_le_zero qty" "num_gt_int qty (i_qty row)"
    | "\<not> num_le_zero qty" "\<not> num_gt_int qty (i_qty row)"
      "hospital_id \<notin> set (map h_id (hospitals (working c)))"
    | "\<not> num_le_zero qty" "\<not> num_gt_int qty (i_qty row)"
      "hospital_id \<in> set (map h_id (hospitals (working c)))"
    by blast
  then show ?thesis
  proof cases
    case 1
    then show ?thesis using assms allocate_reject_quantity [OF Some 1] by (auto simp: rollback_def)
  next
    case 2
    then show ?thesis using assms allocate_reject_stock [OF Some 2] by (auto simp: rollback_def)
  next
    case 3
    then show ?thesis using assms allocate_reject_hospital [OF Some 3] by auto
  next
    case 4
    then show ?thesis using assms allocate_accept [OF Some 4] by auto
  qed
qed

lemma select_None_iff:
  "exec_select_item d item_id = None \<longleftrightarrow> item_id \<notin> set (map i_id (items d))"
  unfolding exec_select_item_def by (auto simp: find_None_iff)

subsection \<open>Successful allocation\<close>

text \<open>
  The conditions on the item and the quantity alone do not make the call succeed. "Stent A"
  has quantity 10 and price 100.0, and 4 units are requested with no override price, but
  for hospital 9, which no hospital row has: the INSERT is rejected by the foreign key on
  \<open>hospital_id\<close>, the call raises, the quantity is still 10 and no row was inserted.
\<close>

theorem allocate_success_counterexample:
  "exec_select_item (working conn0) 1 = Some stent_a
   \<and> i_qty stent_a = 10 \<and> i_price stent_a = Some 100
   \<and> fst (allocate conn0 1 9 (PyInt 4) None 1000) = Inl IntegrityError
   \<and> map i_qty (items (working (snd (allocate conn0 1 9 (PyInt 4) None 1000)))) = [10]
   \<and> allocations (working (snd (allocate conn0 1 9 (PyInt 4) None 1000))) = []"
proof -
  have h1: "exec_select_item (working conn0) 1 = Some stent_a"
    by (simp add: exec_select_item_def conn0_def db0_def stent_a_def)
  have h2: "\<not> num_le_zero (PyInt 4)" by simp
  have h3: "\<not> num_gt_int (PyInt 4) (i_qty stent_a)" by (simp add: stent_a_def)
  have h4: "9 \<notin> set (map h_id (hospitals (working conn0)))"
    by (simp add: conn0_def db0_def hospital_x_def)
  show ?thesis
    unfolding allocate_reject_hospital [OF h1 h2 h3 h4]
    using h1 by (simp add: conn0_def db0_def stent_a_def)
qed

text \<open>
  Claim C1, amended. An item that exists with quantity \<open>q\<close> and price \<open>p\<close>, a request for
  \<open>k\<close> units with \<open>0 < k \<le> q\<close>, no override price, for a hospital that exists: the call
  returns, the item's quantity is \<open>q - k\<close> afterwards, and the allocations table has
  exactly one more row, holding quantity \<open>k\<close> and price \<open>p\<close>; both changes are committed.
\<close>

theorem allocate_success:
  assumes "exec_select_item (working c) item_id = Some row"
    and "i_qty row = q" and "i_price row = Some p"
    and "0 < k" and "k \<le> q"
    and "hospital_id \<in> set (map h_id (hospitals (working c)))"
    and "allocate c item_id hospital_id (PyInt k) None now = (res, c')"
  shows "res = Inr ()
       \<and> exec_select_item (working c') item_id = Some (row\<lparr>i_qty := q - k\<rparr>)
       \<and> allocations (working c') = allocations (working c) @
            [\<lparr>a_id = ident_allocations c, a_hospital_id = hospital_id, a_item_id = item_id,
              a_qty = k, a_price_at_alloc = Some p, a_ts = now\<rparr>]
       \<and> hospitals (working c') = hospitals (working c)
       \<and> committed c' = working c'"
proof -
  have pos: "\<not> num_le_zero (PyInt k)" using assms(4) by simp
  have enough: "\<not> num_gt_int (PyInt k) (i_qty row)" using assms(2,5) by simp
  note acc = allocate_accept [OF assms(1) pos enough assms(6), of None now]
  have sel: "exec_select_item (exec_update_qty (working c) item_id (PyInt k)) item_id
               = Some (row\<lparr>i_qty := q - k\<rparr>)"
    using select_after_update [OF assms(1), of "PyInt k"] assms(2) by simp
  have res: "res = Inr ()" using acc assms(7) by simp
  have c': "c' = snd (allocate c item_id hospital_id (PyInt k) None now)"
    using assms(7) by simp
  have w: "working c' = (exec_update_qty (working c) item_id (PyInt k))
          \<lparr>allocations := allocations (working c) @
             [\<lparr>a_id = ident_allocations c, a_hospital_id = hospital_id, a_item_id = item_id,
               a_qty = k, a_price_at_alloc = Some p, a_ts = now\<rparr>]\<rparr>"
    unfolding c' acc using assms(3) by simp
  have cm: "committed c' = working c'"
    unfolding c' acc by simp
  have s2: "exec_select_item (working c') item_id = Some (row\<lparr>i_qty := q - k\<rparr>)"
    using sel unfolding w exec_select_item_def by simp
  show ?thesis using res w cm s2 by (simp add: hospitals_after_update)
qed

theorem allocate_success_witness:
  "exec_select_item (working conn0) 1 = Some stent_a
   \<and> fst (allocate conn0 1 1 (PyInt 4) None 1000) = Inr ()
   \<and> exec_select_item (working (snd (allocate conn0 1 1 (PyInt 4) None 1000))) 1
       = Some (stent_a\<lparr>i_qty := 6\<rparr>)
   \<and> allocations (working (snd (allocate conn0 1 1 (PyInt 4) None 1000)))
       = [\<lparr>a_id = 1, a_hospital_id = 1, a_item_id = 1, a_qty = 4,
           a_price_at_alloc = Some 100, a_ts = 1000\<rparr>]"
proof -
  have h1: "exec_select_item (working conn0) 1 = Some stent_a"
    by (simp add: exec_select_item_def conn0_def db0_def stent_a_def)
  have h2: "i_qty stent_a = 10" and h3: "i_price stent_a = Some 100"
    by (simp_all add: stent_a_def)
  have h4: "(0::int) < 4" and h5: "(4::int) \<le> 10" by simp_all
  have h6: "1 \<in> set (map h_id (hospitals (working conn0)))"
    by (simp add: conn0_def db0_def hospital_x_def)
  have h7: "allocate conn0 1 1 (PyInt 4) None 1000
             = (fst (allocate conn0 1 1 (PyInt 4) None 1000),
                snd (allocate conn0 1 1 (PyInt 4) None 1000))" by simp
  have i: "ident_allocations conn0 = 1" and a: "allocations (working conn0) = []"
    by (simp_all add: conn0_def db0_def)
  show ?thesis
    using h1 allocate_success [OF h1 h2 h3 h4 h5 h6 h7] by (simp add: i a)
qed

subsection \<open>Failure leaves the tables alone\<close>

text \<open>
  Claim C2. On a connection with no pending changes: whenever \<open>allocate\<close> raises, the
  tables (as the connection sees them and as committed) are exactly those before the call,
  so neither the item's quantity nor the allocations table changed; whenever it returns,
  the decrement and the new row are committed together. A request above the available
  quantity of a stocked item (or any positive request above it) raises the
  insufficient-stock error carrying the available amount.
\<close>

theorem allocate_atomic:
  assumes "working c = committed c"
    and "allocate c item_id hospital_id qty price now = (res, c')"
  shows "(\<forall>e. res = Inl e \<longrightarrow> working c' = working c \<and> committed c' = committed c)
       \<and> (res = Inr () \<longrightarrow>
            committed c' = working c'
            \<and> items (working c') = items (exec_update_qty (working c) item_id qty)
            \<and> length (allocations (working c')) = length (allocations (working c)) + 1)
       \<and> (\<forall>row. exec_select_item (working c) item_id = Some row
              \<and> num_gt_int qty (i_qty row) \<and> (0 \<le> i_qty row \<or> \<not> num_le_zero qty)
            \<longrightarrow> res = Inl (InsufficientStockError (i_qty row)))"
proof (intro conjI allI impI)
  fix e assume "res = Inl e"
  then show "working c' = working c" "committed c' = committed c"
    using allocate_failure_tables [of c item_id hospital_id qty price now e c'] assms by simp_all
next
  assume ok: "res = Inr ()"
  have "\<exists>row. exec_select_item (working c) item_id = Some row \<and> \<not> num_le_zero qty
          \<and> \<not> num_gt_int qty (i_qty row)
          \<and> hospital_id \<in> set (map h_id (hospitals (working c)))"
  proof (cases "exec_select_item (working c) item_id")
    case None
    then show ?thesis using allocate_reject_item [OF None, of hospital_id qty price now] assms(2) ok
      by simp
  next
    case (Some row)
    then show ?thesis
      using allocate_reject_quantity [OF Some, of qty hospital_id price now]
        allocate_reject_stock [OF Some, of qty hospital_id price now]
        allocate_reject_hospital [OF Some, of qty hospital_id price now] assms(2) ok
      by (cases "num_le_zero qty"; cases "num_gt_int qty (i_qty row)";
          cases "hospital_id \<in> set (map h_id (hospitals (working c)))") simp_all
  qed
  then obtain row where r: "exec_select_item (working c) item_id = Some row"
      "\<not> num_le_zero qty" "\<not> num_gt_int qty (i_qty row)"
      "hospital_id \<in> set (map h_id (hospitals (working c)))" by blast
  have c': "c' = snd (allocate c item_id hospital_id qty price now)" using assms(2) by simp
  show "committed c' = working c'"
    unfolding c' allocate_accept [OF r] by simp
  show "items (working c') = items (exec_update_qty (working c) item_id qty)"
    unfolding c' allocate_accept [OF r] by simp
  show "length (allocations (working c')) = length (allocations (working c)) + 1"
    unfolding c' allocate_accept [OF r] by simp
next
  fix row
  assume a: "exec_select_item (working c) item_id = Some row
              \<and> num_gt_int qty (i_qty row) \<and> (0 \<le> i_qty row \<or> \<not> num_le_zero qty)"
  have "\<not> num_le_zero qty" using a by (cases qty) auto
  then show "res = Inl (InsufficientStockError (i_qty row))"
    using a allocate_reject_stock [of c item_id row qty hospital_id price now] assms(2) by simp
qed

theorem allocate_atomic_witness:
  "working conn1 = committed conn1
   \<and> fst (allocate conn1 1 1 (PyInt 7) None 2000) = Inl (InsufficientStockError 6)
   \<and> working (snd (allocate conn1 1 1 (PyInt 7) None 2000)) = working conn1
   \<and> committed (snd (allocate conn1 1 1 (PyInt 7) None 2000)) = committed conn1"
proof -
  have h1: "working conn1 = committed conn1" by (simp add: conn1_def Let_def)
  have h2: "allocate conn1 1 1 (PyInt 7) None 2000
             = (fst (allocate conn1 1 1 (PyInt 7) None 2000),
                snd (allocate conn1 1 1 (PyInt 7) None 2000))" by simp
  note t = allocate_atomic [OF h1 h2]
  have sel: "exec_select_item (working conn1) 1 = Some (stent_a\<lparr>i_qty := 6\<rparr>)"
    by (simp add: exec_select_item_def conn1_def Let_def stent_a_def)
  have gt: "num_gt_int (PyInt 7) (i_qty (stent_a\<lparr>i_qty := 6\<rparr>))" by simp
  have nn: "0 \<le> i_qty (stent_a\<lparr>i_qty := 6\<rparr>)" by simp
  have res: "fst (allocate conn1 1 1 (PyInt 7) None 2000)
              = Inl (InsufficientStockError (i_qty (stent_a\<lparr>i_qty := 6\<rparr>)))"
    using t sel gt nn by blast
  then have "working (snd (allocate conn1 1 1 (PyInt 7) None 2000)) = working conn1
      \<and> committed (snd (allocate conn1 1 1 (PyInt 7) None 2000)) = committed conn1"
    using t by blast
  then show ?thesis using h1 res by simp
qed

subsection \<open>Quantities that are not positive\<close>

text \<open>
  The only test of the quantity's form is \<open>if qty <= 0\<close>. A quantity of 2.5 passes it, and
  with 10 units in stock passes \<open>qty > avail\<close> as well: the call returns, the stock drops
  to 7 and a row with quantity 2 is inserted.
\<close>

theorem allocate_fractional_counterexample:
  "fst (allocate conn0 1 1 (PyFloat (5 / 2)) None 1000) = Inr ()
   \<and> map i_qty (items (committed (snd (allocate conn0 1 1 (PyFloat (5 / 2)) None 1000)))) = [7]
   \<and> map a_qty (allocations (committed (snd (allocate conn0 1 1 (PyFloat (5 / 2)) None 1000))))
       = [2]"
proof -
  have h1: "exec_select_item (working conn0) 1 = Some stent_a"
    by (simp add: exec_select_item_def conn0_def db0_def stent_a_def)
  have h2: "\<not> num_le_zero (PyFloat (5 / 2))" by simp
  have h3: "\<not> num_gt_int (PyFloat (5 / 2)) (i_qty stent_a)" by (simp add: stent_a_def)
  have h4: "1 \<in> set (map h_id (hospitals (working conn0)))"
    by (simp add: conn0_def db0_def hospital_x_def)
  have f1: "\<lfloor>15 / 2 :: rat\<rfloor> = 7" by (rule floor_unique) simp_all
  have f2: "\<lfloor>5 / 2 :: rat\<rfloor> = 2" by (rule floor_unique) simp_all
  show ?thesis
    unfolding allocate_accept [OF h1 h2 h3 h4]
    by (simp add: exec_update_qty_def conn0_def db0_def stent_a_def sql_trunc_def f1 f2)
qed

text \<open>
  Claim C3, amended. For an existing item and a requested quantity that is zero or
  negative (an integer or not), \<open>allocate\<close> raises the invalid-quantity error and changes
  nothing.
\<close>

theorem allocate_nonpositive_quantity:
  assumes "working c = committed c"
    and "exec_select_item (working c) item_id = Some row"
    and "num_le_zero qty"
  shows "allocate c item_id hospital_id qty price now = (Inl InvalidQuantityError, c)"
  using allocate_reject_quantity [OF assms(2,3)] rollback_clean [OF assms(1)] by simp

theorem allocate_nonpositive_quantity_witness:
  "working conn0 = committed conn0
   \<and> exec_select_item (working conn0) 1 = Some stent_a
   \<and> num_le_zero (PyFloat (- (5 / 2)))
   \<and> allocate conn0 1 1 (PyFloat (- (5 / 2))) None 1000 = (Inl InvalidQuantityError, conn0)"
proof -
  have h1: "working conn0 = committed conn0" by (simp add: conn0_def)
  have h2: "exec_select_item (working conn0) 1 = Some stent_a"
    by (simp add: exec_select_item_def conn0_def db0_def stent_a_def)
  have h3: "num_le_zero (PyFloat (- (5 / 2)))" by simp
  show ?thesis using h1 h2 h3 allocate_nonpositive_quantity [OF h1 h2 h3] by simp
qed

subsection \<open>Missing item, missing hospital\<close>

text \<open>
  Claim C4. When no item row has the given id, \<open>allocate\<close> raises the not-found error,
  whatever the requested quantity, the hospital and the price are: the row is looked up
  first and the quantity is not examined before.
\<close>

theorem allocate_missing_item:
  assumes "item_id \<notin> set (map i_id (items (working c)))"
  shows "fst (allocate c item_id hospital_id qty price now) = Inl NotFoundError"
  using allocate_reject_item [of c item_id hospital_id qty price now] assms
  by (simp add: select_None_iff)

theorem allocate_missing_item_witness:
  "2 \<notin> set (map i_id (items (working conn0)))
   \<and> fst (allocate conn0 2 1 (PyInt (- 3)) None 1000) = Inl NotFoundError
   \<and> fst (allocate conn0 2 1 (PyInt 50) None 1000) = Inl NotFoundError"
proof -
  have h: "2 \<notin> set (map i_id (items (working conn0)))"
    by (simp add: conn0_def db0_def stent_a_def)
  show ?thesis
    using h allocate_missing_item [OF h, of 1 "PyInt (- 3)" None 1000]
      allocate_missing_item [OF h, of 1 "PyInt 50" None 1000] by simp
qed

text \<open>
  Claim C10. An existing item, a positive quantity within stock, a hospital id that no
  hospital row has: the INSERT violates the foreign key, \<open>allocate\<close> raises that error, and
  after the rollback the tables are those before the call.
\<close>

theorem allocate_unknown_hospital:
  assumes "working c = committed c"
    and "exec_select_item (working c) item_id = Some row"
    and "\<not> num_le_zero qty" and "\<not> num_gt_int qty (i_qty row)"
    and "hospital_id \<notin> set (map h_id (hospitals (working c)))"
  shows "fst (allocate c item_id hospital_id qty price now) = Inl IntegrityError
       \<and> working (snd (allocate c item_id hospital_id qty price now)) = working c
       \<and> committed (snd (allocate c item_id hospital_id qty price now)) = committed c"
  using allocate_reject_hospital [OF assms(2-5), of price now] assms(1) by simp

theorem allocate_unknown_hospital_witness:
  "working conn0 = committed conn0
   \<and> 9 \<notin> set (map h_id (hospitals (working conn0)))
   \<and> fst (allocate conn0 1 9 (PyInt 4) None 1000) = Inl IntegrityError
   \<and> working (snd (allocate conn0 1 9 (PyInt 4) None 1000)) = db0
   \<and> committed (snd (allocate conn0 1 9 (PyInt 4) None 1000)) = db0"
proof -
  have h1: "working conn0 = committed conn0" by (simp add: conn0_def)
  have h2: "exec_select_item (working conn0) 1 = Some stent_a"
    by (simp add: exec_select_item_def conn0_def db0_def stent_a_def)
  have h3: "\<not> num_le_zero (PyInt 4)" by simp
  have h4: "\<not> num_gt_int (PyInt 4) (i_qty stent_a)" by (simp add: stent_a_def)
  have h5: "9 \<notin> set (map h_id (hospitals (working conn0)))"
    by (simp add: conn0_def db0_def hospital_x_def)
  have w: "working conn0 = db0" "committed conn0 = db0" by (simp_all add: conn0_def)
  show ?thesis
    using h1 h5 allocate_unknown_hospital [OF h1 h2 h3 h4 h5, of None 1000] by (simp add: w)
qed

subsection \<open>The recorded price\<close>

lemma update_item_allocations:
  "allocations (working (snd (update_item c item_id name diameter len price)))
     = allocations (working c)
   \<and> (working c = committed c \<longrightarrow>
        allocations (committed (snd (update_item c item_id name diameter len price)))
          = allocations (committed c))"
  by (simp add: update_item_def commit_def)

lemma allocate_success_cases:
  assumes "allocate c item_id hospital_id qty price now = (Inr u, c')"
  shows "\<exists>row. exec_select_item (working c) item_id = Some row \<and> \<not> num_le_zero qty
          \<and> \<not> num_gt_int qty (i_qty row)
          \<and> hospital_id \<in> set (map h_id (hospitals (working c)))"
proof (cases "exec_select_item (working c) item_id")
  case None
  then show ?thesis using allocate_reject_item [OF None, of hospital_id qty price now] assms
    by simp
next
  case (Some row)
  then show ?thesis
    using allocate_reject_quantity [OF Some, of qty hospital_id price now]
      allocate_reject_stock [OF Some, of qty hospital_id price now]
      allocate_reject_hospital [OF Some, of qty hospital_id price now] assms
    by (cases "num_le_zero qty"; cases "num_gt_int qty (i_qty row)";
        cases "hospital_id \<in> set (map h_id (hospitals (working c)))") simp_all
qed

text \<open>
  Claim C8. When \<open>allocate\<close> returns, the inserted row records the override price if one
  was given and otherwise the price the item row had when it was read, which may be
  absent. A later \<open>update_item\<close>, whatever it sets, leaves the allocations table as it is,
  so the recorded price of every earlier row stays.
\<close>

theorem allocation_price_snapshot:
  assumes "exec_select_item (working c) item_id = Some row"
    and "allocate c item_id hospital_id qty price now = (Inr (), c1)"
    and "update_item c1 item_id' name diameter len price' = (res, c2)"
  shows "allocations (working c1) = allocations (working c) @
           [\<lparr>a_id = ident_allocations c, a_hospital_id = hospital_id, a_item_id = item_id,
             a_qty = sql_int_of_num qty,
             a_price_at_alloc = (case price of None \<Rightarrow> i_price row | Some x \<Rightarrow> Some x),
             a_ts = now\<rparr>]
       \<and> allocations (working c2) = allocations (working c1)
       \<and> allocations (committed c2) = allocations (working c1)"
proof -
  obtain row' where r: "exec_select_item (working c) item_id = Some row'"
      "\<not> num_le_zero qty" "\<not> num_gt_int qty (i_qty row')"
      "hospital_id \<in> set (map h_id (hospitals (working c)))"
    using allocate_success_cases [OF assms(2)] by blast
  have same: "row' = row" using r(1) assms(1) by simp
  have c1: "c1 = snd (allocate c item_id hospital_id qty price now)" using assms(2) by simp
  have a1: "allocations (working c1) = allocations (working c) @
           [\<lparr>a_id = ident_allocations c, a_hospital_id = hospital_id, a_item_id = item_id,
             a_qty = sql_int_of_num qty,
             a_price_at_alloc = (case price of None \<Rightarrow> i_price row | Some x \<Rightarrow> Some x),
             a_ts = now\<rparr>]"
    unfolding c1 allocate_accept [OF r] same by simp
  have clean1: "working c1 = committed c1"
    unfolding c1 allocate_accept [OF r] by simp
  have c2: "c2 = snd (update_item c1 item_id' name diameter len price')"
    using assms(3) by simp
  have a2: "allocations (working c2) = allocations (working c1)"
    unfolding c2 using update_item_allocations [of c1 item_id' name diameter len price'] by simp
  have a3: "allocations (committed c2) = allocations (working c1)"
    unfolding c2 using update_item_allocations [of c1 item_id' name diameter len price'] clean1
    by simp
  show ?thesis using a1 a2 a3 by simp
qed

theorem allocation_price_snapshot_witness:
  "exec_select_item (working conn0) 1 = Some stent_a
   \<and> allocate conn0 1 1 (PyInt 4) None 1000 = (Inr (), conn1)
   \<and> fst (update_item conn1 1 ''Stent A'' None None (Some 250)) = Inr ()
   \<and> map i_price (items (working (snd (update_item conn1 1 ''Stent A'' None None (Some 250)))))
       = [Some 250]
   \<and> map a_price_at_alloc
         (allocations (working (snd (update_item conn1 1 ''Stent A'' None None (Some 250)))))
       = [Some 100]"
proof -
  have h1: "exec_select_item (working conn0) 1 = Some stent_a"
    by (simp add: exec_select_item_def conn0_def db0_def stent_a_def)
  have p: "\<not> num_le_zero (PyInt 4)" "\<not> num_gt_int (PyInt 4) (i_qty stent_a)"
    "1 \<in> set (map h_id (hospitals (working conn0)))"
    by (simp_all add: stent_a_def conn0_def db0_def hospital_x_def)
  have h2: "allocate conn0 1 1 (PyInt 4) None 1000 = (Inr (), conn1)"
    unfolding allocate_accept [OF h1 p]
    by (simp add: conn0_def conn1_def db0_def Let_def exec_update_qty_def stent_a_def)
  have h3: "update_item conn1 1 ''Stent A'' None None (Some 250)
             = (fst (update_item conn1 1 ''Stent A'' None None (Some 250)),
                snd (update_item conn1 1 ''Stent A'' None None (Some 250)))" by simp
  have u: "fst (update_item conn1 1 ''Stent A'' None None (Some 250)) = Inr ()"
    "map i_price (items (working (snd (update_item conn1 1 ''Stent A'' None None (Some 250)))))
       = [Some 250]"
    by (simp_all add: update_item_def fits_int_opt_def conn1_def Let_def commit_def stent_a_def)
  have a: "allocations (working conn1) = [\<lparr>a_id = 1, a_hospital_id = 1, a_item_id = 1, a_qty = 4,
                                a_price_at_alloc = Some 100, a_ts = 1000\<rparr>]"
    by (simp add: conn1_def Let_def)
  show ?thesis
    using h1 h2 u allocation_price_snapshot [OF h1 h2 h3] by (simp add: a)
qed

subsection \<open>Deleting a hospital or an item\<close>

lemma delete_hospital_allocations:
  "allocations (working (snd (delete_hospital c hid))) = allocations (working c)"
  by (simp add: delete_hospital_def commit_def)

lemma delete_item_allocations:
  "allocations (working (snd (delete_item c item_id))) = allocations (working c)"
  by (simp add: delete_item_def commit_def)

lemma delete_hospital_unreferenced:
  "hid \<notin> set (map a_hospital_id (allocations (working c))) \<Longrightarrow>
   fst (delete_hospital c hid) = Inr ()
   \<and> hid \<notin> set (map h_id (hospitals (working (snd (delete_hospital c hid)))))"
  by (auto simp: delete_hospital_def commit_def)

lemma delete_item_unreferenced:
  "item_id \<notin> set (map a_item_id (allocations (working c))) \<Longrightarrow>
   fst (delete_item c item_id) = Inr ()
   \<and> item_id \<notin> set (map i_id (items (working (snd (delete_item c item_id)))))"
  by (auto simp: delete_item_def commit_def)

text \<open>
  Claim C9. The hospital and the item of the example ledger are referenced by an
  allocation row. Deleting either is rejected by the foreign key of the allocations
  table: the method raises, and the hospital (the item) is still there. The allocation
  row is untouched, but nothing was removed.
\<close>

theorem delete_referenced_rejected:
  "delete_hospital conn1 1 = (Inl IntegrityError, conn1)
   \<and> delete_item conn1 1 = (Inl IntegrityError, conn1)
   \<and> map h_id (hospitals (working conn1)) = [1]
   \<and> map i_id (items (working conn1)) = [1]
   \<and> map a_hospital_id (allocations (working conn1)) = [1]
   \<and> map a_item_id (allocations (working conn1)) = [1]"
  by (simp add: delete_hospital_def delete_item_def conn1_def Let_def hospital_x_def stent_a_def)

subsection \<open>Negative stock\<close>

text \<open>
  Claim C6. \<open>add_item\<close> and \<open>set_stock\<close> pass the quantity they are given to the store,
  which has no constraint on it: a quantity of -5 is stored as it is.
\<close>

theorem negative_stock_stored:
  "fst (add_item conn0 ''Stent'' ''Stent B'' None None None (Some (- 5))) = Inr ()
   \<and> map i_qty (items (committed (snd (add_item conn0 ''Stent'' ''Stent B'' None None None
                                           (Some (- 5)))))) = [10, - 5]
   \<and> fst (set_stock conn0 1 (- 5)) = Inr ()
   \<and> map i_qty (items (committed (snd (set_stock conn0 1 (- 5))))) = [- 5]"
  by (simp add: add_item_def set_stock_def fits_int_opt_def in_int_range_def commit_def
        conn0_def db0_def stent_a_def)

subsection \<open>Sequences of allocations\<close>






subsection \<open>The reporting query\<close>

lemma report_where_matches:
  assumes "hospital_id \<noteq> Some 0" and "h_id h = a_hospital_id a"
  shows "report_where hospital_id date_from date_to (a, h, i)
           = matches_filters hospital_id date_from date_to a"
  using assms by (auto simp: report_where_def matches_filters_def split: option.splits)

lemma filter_join_inner:
  assumes "hospital_id \<noteq> Some 0"
  shows "map (\<lambda>(a, h, i). mk_row a h i)
           (filter (report_where hospital_id date_from date_to)
              [(a, h, i). h \<leftarrow> hs, h_id h = a_hospital_id a, i \<leftarrow> is, i_id i = a_item_id a])
         = (if matches_filters hospital_id date_from date_to a
            then [mk_row a h i. h \<leftarrow> hs, h_id h = a_hospital_id a, i \<leftarrow> is, i_id i = a_item_id a]
            else [])"
proof (induction hs)
  case Nil
  then show ?case by simp
next
  case (Cons h hs)
  have inner: "\<And>is. h_id h = a_hospital_id a \<Longrightarrow>
     map (\<lambda>(a, h, i). mk_row a h i)
       (filter (report_where hospital_id date_from date_to)
         [(a, h, i). i \<leftarrow> is, i_id i = a_item_id a])
     = (if matches_filters hospital_id date_from date_to a
        then [mk_row a h i. i \<leftarrow> is, i_id i = a_item_id a] else [])"
  proof -
    fix "is" :: "item list"
    assume e: "h_id h = a_hospital_id a"
    show "map (\<lambda>(a, h, i). mk_row a h i)
       (filter (report_where hospital_id date_from date_to)
         [(a, h, i). i \<leftarrow> is, i_id i = a_item_id a])
     = (if matches_filters hospital_id date_from date_to a
        then [mk_row a h i. i \<leftarrow> is, i_id i = a_item_id a] else [])"
      by (induction "is") (simp_all add: report_where_matches [OF assms e])
  qed
  show ?case using Cons inner [of "is"] by (cases "h_id h = a_hospital_id a") (auto)
qed

lemma fetch_unsorted_eq:
  assumes "hospital_id \<noteq> Some 0"
  shows "map (\<lambda>(a, h, i). mk_row a h i)
           (filter (report_where hospital_id date_from date_to)
              [(a, h, i). a \<leftarrow> as, h \<leftarrow> hs, h_id h = a_hospital_id a,
                          i \<leftarrow> is, i_id i = a_item_id a])
         = [mk_row a h i. a \<leftarrow> filter (matches_filters hospital_id date_from date_to) as,
                          h \<leftarrow> hs, h_id h = a_hospital_id a, i \<leftarrow> is, i_id i = a_item_id a]"
proof (induction as)
  case Nil
  then show ?case by simp
next
  case (Cons a as)
  show ?case
    using Cons filter_join_inner [OF assms] by simp
qed

lemma fetch_eq_spec:
  assumes "hospital_id \<noteq> Some 0"
  shows "fetch_allocations_for_report c hospital_id date_from date_to
           = report_spec (working c) hospital_id date_from date_to"
  unfolding fetch_allocations_for_report_def report_spec_def joined_def
  using fetch_unsorted_eq [OF assms] by simp

lemma set_report_spec:
  "set (report_spec d hospital_id date_from date_to)
     = {mk_row a h i | a h i.
          a \<in> set (allocations d) \<and> h \<in> set (hospitals d) \<and> i \<in> set (items d)
          \<and> h_id h = a_hospital_id a \<and> i_id i = a_item_id a
          \<and> matches_filters hospital_id date_from date_to a}"
  unfolding report_spec_def by auto

lemma row_ids_items:
  "map r_id [mk_row a h i. i \<leftarrow> is, i_id i = k]
     = replicate (length (filter (\<lambda>i. i_id i = k) is)) (a_id a)"
  by (induction "is") (simp_all add: mk_row_def)

lemma row_ids_join:
  "map r_id [mk_row a h i. h \<leftarrow> hs, h_id h = k1, i \<leftarrow> is, i_id i = k2]
     = replicate (length (filter (\<lambda>h. h_id h = k1) hs) * length (filter (\<lambda>i. i_id i = k2) is))
         (a_id a)"
proof (induction hs)
  case Nil
  then show ?case by simp
next
  case (Cons h hs)
  then show ?case by (simp add: row_ids_items replicate_add)
qed

lemma distinct_key_once:
  "distinct (map f xs) \<Longrightarrow> k \<in> set (map f xs) \<Longrightarrow> length (filter (\<lambda>x. f x = k) xs) = 1"
proof (induction xs)
  case Nil
  then show ?case by simp
next
  case (Cons x xs)
  show ?case
  proof (cases "f x = k")
    case True
    then have "k \<notin> f ` set xs" using Cons.prems(1) by auto
    then have "filter (\<lambda>x. f x = k) xs = []" by (auto simp: filter_empty_conv)
    then show ?thesis using True by simp
  next
    case False
    then show ?thesis using Cons by auto
  qed
qed

lemma row_ids_all:
  assumes "distinct (map h_id hs)" and "distinct (map i_id is)"
  shows "set (map a_hospital_id as) \<subseteq> set (map h_id hs) \<Longrightarrow>
         set (map a_item_id as) \<subseteq> set (map i_id is) \<Longrightarrow>
         map r_id [mk_row a h i. a \<leftarrow> as, h \<leftarrow> hs, h_id h = a_hospital_id a,
                                 i \<leftarrow> is, i_id i = a_item_id a]
           = map a_id as"
proof (induction as)
  case Nil
  then show ?case by simp
next
  case (Cons a as)
  have h1: "length (filter (\<lambda>h. h_id h = a_hospital_id a) hs) = 1"
    using distinct_key_once [OF assms(1), of "a_hospital_id a"] Cons.prems(1) by simp
  have i1: "length (filter (\<lambda>i. i_id i = a_item_id a) is) = 1"
    using distinct_key_once [OF assms(2), of "a_item_id a"] Cons.prems(2) by simp
  have one: "map r_id [mk_row a h i. h \<leftarrow> hs, h_id h = a_hospital_id a,
                                     i \<leftarrow> is, i_id i = a_item_id a] = [a_id a]"
    unfolding row_ids_join h1 i1 by simp
  have rest: "map r_id [mk_row a h i. a \<leftarrow> as, h \<leftarrow> hs, h_id h = a_hospital_id a,
                                 i \<leftarrow> is, i_id i = a_item_id a] = map a_id as"
    using Cons by simp
  show ?case using one rest by simp
qed

lemma report_spec_ids:
  assumes "keys_ok d"
  shows "mset (map r_id (report_spec d hospital_id date_from date_to))
           = mset (map a_id (filter (matches_filters hospital_id date_from date_to) (allocations d)))"
proof -
  let ?as = "filter (matches_filters hospital_id date_from date_to) (allocations d)"
  have k: "distinct (map h_id (hospitals d))" "distinct (map i_id (items d))"
    "set (map a_hospital_id ?as) \<subseteq> set (map h_id (hospitals d))"
    "set (map a_item_id ?as) \<subseteq> set (map i_id (items d))"
    using assms unfolding keys_ok_def by auto
  have "mset (map r_id (report_spec d hospital_id date_from date_to))
          = mset (map r_id [mk_row a h i. a \<leftarrow> ?as, h \<leftarrow> hospitals d, h_id h = a_hospital_id a,
                                          i \<leftarrow> items d, i_id i = a_item_id a])"
    unfolding report_spec_def by (simp only: mset_map mset_sort)
  then show ?thesis using row_ids_all [OF k] by simp
qed

lemma report_spec_empty:
  "filter (matches_filters hospital_id date_from date_to) (allocations d) = [] \<Longrightarrow>
   report_spec d hospital_id date_from date_to = []"
  unfolding report_spec_def by simp

text \<open>
  A hospital filter of 0 is falsy in \<open>if hospital_id:\<close>, so no clause is added: on the
  example ledger, whose only allocation belongs to hospital 1, the query for hospital 0
  returns that allocation, while no allocation matches the filter.
\<close>

theorem report_hospital_zero_counterexample:
  "fetch_allocations_for_report conn1 (Some 0) None None
     = [\<lparr>r_id = 1, r_hospital = ''Hospital X'', r_item_type = ''Stent'', r_item = ''Stent A'',
         r_diameter = None, r_length = None, r_qty = 4, r_price = Some 100, r_ts = 1000\<rparr>]
   \<and> filter (matches_filters (Some 0) None None) (allocations (working conn1)) = []
   \<and> report_spec (working conn1) (Some 0) None None = []"
  by (simp add: fetch_allocations_for_report_def joined_def report_where_def report_spec_def
        matches_filters_def mk_row_def conn1_def Let_def hospital_x_def stent_a_def)

text \<open>
  Claim C7, amended. For every state of the tables, every hospital filter that is absent
  or a non-zero id, and every date range with either bound present or absent: the rows
  the query returns are in ascending order of timestamp; they are exactly the rows built
  from an allocation that matches every supplied filter (bounds inclusive), joined with
  the hospital and the item it references; where the key constraints of the schema hold,
  each matching allocation appears exactly once; and when no allocation matches, the
  result is the empty list.
\<close>

theorem report_query:
  assumes "hospital_id \<noteq> Some 0"
  shows "sorted (map r_ts (fetch_allocations_for_report c hospital_id date_from date_to))
       \<and> fetch_allocations_for_report c hospital_id date_from date_to
           = report_spec (working c) hospital_id date_from date_to
       \<and> set (fetch_allocations_for_report c hospital_id date_from date_to)
           = {mk_row a h i | a h i.
                a \<in> set (allocations (working c)) \<and> h \<in> set (hospitals (working c))
                \<and> i \<in> set (items (working c))
                \<and> h_id h = a_hospital_id a \<and> i_id i = a_item_id a
                \<and> matches_filters hospital_id date_from date_to a}
       \<and> (keys_ok (working c) \<longrightarrow>
            mset (map r_id (fetch_allocations_for_report c hospital_id date_from date_to))
              = mset (map a_id (filter (matches_filters hospital_id date_from date_to)
                                       (allocations (working c)))))
       \<and> (filter (matches_filters hospital_id date_from date_to) (allocations (working c)) = []
            \<longrightarrow> fetch_allocations_for_report c hospital_id date_from date_to = [])"
proof -
  have s: "sorted (map r_ts (fetch_allocations_for_report c hospital_id date_from date_to))"
    unfolding fetch_allocations_for_report_def by (rule sorted_sort_key)
  note e = fetch_eq_spec [OF assms, of c date_from date_to]
  show ?thesis
    using s e set_report_spec [of "working c" hospital_id date_from date_to]
      report_spec_ids [of "working c" hospital_id date_from date_to]
      report_spec_empty [of hospital_id date_from date_to "working c"]
    by simp
qed

theorem report_query_witness:
  "Some 1 \<noteq> Some (0 :: int)
   \<and> keys_ok (working conn1)
   \<and> fetch_allocations_for_report conn1 (Some 1) (Some 1000) (Some 1000)
       = [\<lparr>r_id = 1, r_hospital = ''Hospital X'', r_item_type = ''Stent'', r_item = ''Stent A'',
           r_diameter = None, r_length = None, r_qty = 4, r_price = Some 100, r_ts = 1000\<rparr>]
   \<and> mset (map r_id (fetch_allocations_for_report conn1 (Some 1) (Some 1000) (Some 1000)))
       = mset (map a_id (filter (matches_filters (Some 1) (Some 1000) (Some 1000))
                                (allocations (working conn1))))
   \<and> filter (matches_filters (Some 1) (Some 2000) None) (allocations (working conn1)) = []
   \<and> fetch_allocations_for_report conn1 (Some 1) (Some 2000) None = []"
proof -
  have h: "Some 1 \<noteq> Some (0 :: int)" by simp
  have k: "keys_ok (working conn1)"
    by (simp add: keys_ok_def conn1_def Let_def hospital_x_def stent_a_def)
  have v: "report_spec (working conn1) (Some 1) (Some 1000) (Some 1000)
       = [\<lparr>r_id = 1, r_hospital = ''Hospital X'', r_item_type = ''Stent'', r_item = ''Stent A'',
           r_diameter = None, r_length = None, r_qty = 4, r_price = Some 100, r_ts = 1000\<rparr>]"
    by (simp add: report_spec_def matches_filters_def mk_row_def conn1_def Let_def
          hospital_x_def stent_a_def)
  have n: "filter (matches_filters (Some 1) (Some 2000) None) (allocations (working conn1)) = []"
    by (simp add: matches_filters_def conn1_def Let_def)
  note t1 = report_query [OF h, of conn1 "Some 1000" "Some 1000"]
  note t2 = report_query [OF h, of conn1 "Some 2000" None]
  have r1: "fetch_allocations_for_report conn1 (Some 1) (Some 1000) (Some 1000)
       = [\<lparr>r_id = 1, r_hospital = ''Hospital X'', r_item_type = ''Stent'', r_item = ''Stent A'',
           r_diameter = None, r_length = None, r_qty = 4, r_price = Some 100, r_ts = 1000\<rparr>]"
    using t1 v by simp
  have r2: "mset (map r_id (fetch_allocations_for_report conn1 (Some 1) (Some 1000) (Some 1000)))
       = mset (map a_id (filter (matches_filters (Some 1) (Some 1000) (Some 1000))
                                (allocations (working conn1))))"
    using t1 k by blast
  have r3: "fetch_allocations_for_report conn1 (Some 1) (Some 2000) None = []"
    using t2 n by blast
  show ?thesis using h k r1 r2 n r3 by blast
qed

end
